theory Spec2Isabelle
  imports Main "HOL-Library.Sublist"
begin

section \<open>s3\_tmpwatch: deleting old files in an S3 path\<close>

text \<open>
  A shallow embedding of \<^verbatim>\<open>mrjob/tools/emr/s3_tmpwatch.py\<close>. The module is Python 2
  code (optparse, boto): strings are byte strings, so \<^typ>\<open>string\<close> models them
  character by character, and \<^verbatim>\<open>int\<close>, \<^verbatim>\<open>str\<close> and \<^verbatim>\<open>repr\<close> are the ones of Python 2.
  Exceptions are values of \<open>error\<close>: a pure function that may raise returns
  \<open>error + 'a\<close>, and a function with effects takes the world and returns an \<open>outcome\<close>,
  the world after it with the events it issued and the exception it raised.

  The store answers every call with what it holds at that moment: a listing is read
  when the loop over it starts, and a deleted key is in no later listing. Failures of
  the connection itself are not modelled.
\<close>

subsection \<open>Exceptions\<close>

text \<open>
  \<open>IndexError\<close>: indexing an empty string. \<open>ValueError\<close>: \<^verbatim>\<open>int()\<close> on a string that
  is no integer literal (the specification calls it MalformedDurationError), also raised
  by \<^verbatim>\<open>parse_s3_uri\<close> and \<^verbatim>\<open>strptime\<close>. \<open>OverflowError\<close>: a \<^verbatim>\<open>timedelta\<close> out of range.
  \<open>SystemExit\<close>: \<^verbatim>\<open>option_parser.error\<close>.
\<close>

datatype error = IndexError | ValueError | OverflowError | SystemExit

subsection \<open>\<^verbatim>\<open>datetime.timedelta\<close>\<close>

text \<open>
  A \<^verbatim>\<open>timedelta\<close> is a duration with microsecond resolution. Python keeps it normalised
  as \<^verbatim>\<open>days\<close>, \<^verbatim>\<open>seconds\<close> (0 to 86399) and \<^verbatim>\<open>microseconds\<close> (0 to 999999); the model
  keeps the total number of microseconds, from which the three fields are read, so that
  every value is normalised by construction.
\<close>

datatype timedelta = Timedelta int

fun total_us :: "timedelta \<Rightarrow> int" where
  "total_us (Timedelta u) = u"

fun td_days :: "timedelta \<Rightarrow> int" where
  "td_days (Timedelta u) = u div 86400000000"

fun td_seconds :: "timedelta \<Rightarrow> int" where
  "td_seconds (Timedelta u) = (u mod 86400000000) div 1000000"

fun td_microseconds :: "timedelta \<Rightarrow> int" where
  "td_microseconds (Timedelta u) = u mod 1000000"

text \<open>
  The constructor refuses a duration whose \<^verbatim>\<open>days\<close> field has a magnitude above
  999999999 with an OverflowError.
\<close>

definition new_delta :: "int \<Rightarrow> error + timedelta" where
  "new_delta u =
     (if \<bar>u div 86400000000\<bar> > 999999999 then Inl OverflowError else Inr (Timedelta u))"

text \<open>\<^verbatim>\<open>timedelta(minutes=n)\<close>, \<^verbatim>\<open>timedelta(hours=n)\<close>, \<^verbatim>\<open>timedelta(days=n)\<close> for an integer n.\<close>

definition timedelta_minutes :: "int \<Rightarrow> error + timedelta" where
  "timedelta_minutes n = new_delta (n * 60000000)"

definition timedelta_hours :: "int \<Rightarrow> error + timedelta" where
  "timedelta_hours n = new_delta (n * 3600000000)"

definition timedelta_days :: "int \<Rightarrow> error + timedelta" where
  "timedelta_days n = new_delta (n * 86400000000)"

text \<open>
  \<^verbatim>\<open>a > b\<close> on two timedeltas compares the days, then the seconds, then the
  microseconds.
\<close>

definition td_gt :: "timedelta \<Rightarrow> timedelta \<Rightarrow> bool" where
  "td_gt a b =
     (if td_days a = td_days b
      then (if td_seconds a = td_seconds b
            then td_microseconds a > td_microseconds b
            else td_seconds a > td_seconds b)
      else td_days a > td_days b)"

subsection \<open>\<^verbatim>\<open>int()\<close> on a string\<close>

text \<open>
  \<^verbatim>\<open>int(s)\<close> strips white space at both ends, reads an optional sign and then needs at
  least one decimal digit and nothing else; anything else raises ValueError. Python
  integers are unbounded.
\<close>

definition isspace :: "char \<Rightarrow> bool" where
  "isspace c = (c \<in> set [CHR '' '', CHR 0x09, CHR 0x0A, CHR 0x0B, CHR 0x0C, CHR 0x0D])"

definition strip :: "string \<Rightarrow> string" where
  "strip s = rev (dropWhile isspace (rev (dropWhile isspace s)))"

definition digit_of :: "char \<Rightarrow> nat option" where
  "digit_of c =
     map_of [(CHR ''0'', 0), (CHR ''1'', 1), (CHR ''2'', 2), (CHR ''3'', 3), (CHR ''4'', 4),
             (CHR ''5'', 5), (CHR ''6'', 6), (CHR ''7'', 7), (CHR ''8'', 8), (CHR ''9'', 9)] c"

fun digits_value :: "nat \<Rightarrow> string \<Rightarrow> nat option" where
  "digits_value acc [] = Some acc"
| "digits_value acc (c # cs) =
     (case digit_of c of
        None \<Rightarrow> None
      | Some d \<Rightarrow> digits_value (10 * acc + d) cs)"

fun unsigned_part :: "string \<Rightarrow> string" where
  "unsigned_part [] = []"
| "unsigned_part (c # cs) = (if c = CHR ''-'' \<or> c = CHR ''+'' then cs else c # cs)"

fun is_negative :: "string \<Rightarrow> bool" where
  "is_negative [] = False"
| "is_negative (c # cs) = (c = CHR ''-'')"

definition py_int :: "string \<Rightarrow> error + int" where
  "py_int s =
     (let t = strip s; ds = unsigned_part t
      in if ds = [] then Inl ValueError
         else (case digits_value 0 ds of
                 None \<Rightarrow> Inl ValueError
               | Some n \<Rightarrow> Inr (if is_negative t then - int n else int n)))"

text \<open>
  What an integer literal is, stated apart from the computation of its value: a
  non-empty run of decimal digits after the optional sign, white space stripped.
\<close>

definition is_digit :: "char \<Rightarrow> bool" where
  "is_digit c = (c \<in> set ''0123456789'')"


subsection \<open>\<^verbatim>\<open>process_time\<close>\<close>

text \<open>
  \<^verbatim>\<open>time[-1]\<close> raises IndexError on the empty string; \<^verbatim>\<open>time[:-1]\<close> is the string
  without its last character. An error of \<^verbatim>\<open>int\<close> or of the constructor propagates.
\<close>

definition then_delta :: "error + int \<Rightarrow> (int \<Rightarrow> error + timedelta) \<Rightarrow> error + timedelta" where
  "then_delta r f = (case r of Inl e \<Rightarrow> Inl e | Inr n \<Rightarrow> f n)"

definition process_time :: "string \<Rightarrow> error + timedelta" where
  "process_time time =
     (if time = [] then Inl IndexError
      else if last time = CHR ''m'' then then_delta (py_int (butlast time)) timedelta_minutes
      else if last time = CHR ''h'' then then_delta (py_int (butlast time)) timedelta_hours
      else if last time = CHR ''d'' then then_delta (py_int (butlast time)) timedelta_days
      else then_delta (py_int time) timedelta_hours)"

definition DEFAULT_TIME_OLD :: string where
  "DEFAULT_TIME_OLD = ''30d''"


subsection \<open>Rendering numbers and durations\<close>

text \<open>\<^verbatim>\<open>%d\<close> of a Python integer: its decimal digits, with a minus sign when negative.\<close>

fun str_nat :: "nat \<Rightarrow> string" where
  "str_nat n =
     (if n < 10 then [''0123456789'' ! n]
      else str_nat (n div 10) @ [''0123456789'' ! (n mod 10)])"

declare str_nat.simps [simp del]

definition str_int :: "int \<Rightarrow> string" where
  "str_int i = (if i < 0 then CHR ''-'' # str_nat (nat (- i)) else str_nat (nat i))"

text \<open>\<^verbatim>\<open>%02d\<close> and \<^verbatim>\<open>%06d\<close> of a non-negative integer: zeros on the left up to the width.\<close>

definition zero_pad :: "nat \<Rightarrow> string \<Rightarrow> string" where
  "zero_pad w s = replicate (w - length s) CHR ''0'' @ s"

text \<open>
  \<^verbatim>\<open>str(td)\<close>: \<^verbatim>\<open>H:MM:SS\<close>, after \<^verbatim>\<open>D day, \<close> or \<^verbatim>\<open>D days, \<close> when the days are not zero,
  before \<^verbatim>\<open>.UUUUUU\<close> when the microseconds are not zero.
\<close>

definition plural :: "int \<Rightarrow> string" where
  "plural n = (if \<bar>n\<bar> \<noteq> 1 then ''s'' else [])"

definition str_timedelta :: "timedelta \<Rightarrow> string" where
  "str_timedelta td =
     (let mm = td_seconds td div 60;
          ss = td_seconds td mod 60;
          hh = mm div 60;
          mm = mm mod 60;
          s = str_int hh @ '':'' @ zero_pad 2 (str_int mm) @ '':'' @ zero_pad 2 (str_int ss);
          s = (if td_days td \<noteq> 0
               then str_int (td_days td) @ '' day'' @ plural (td_days td) @ '', '' @ s
               else s)
      in if td_microseconds td \<noteq> 0
         then s @ ''.'' @ zero_pad 6 (str_int (td_microseconds td))
         else s)"

text \<open>
  \<^verbatim>\<open>repr(td)\<close>, which \<^verbatim>\<open>%r\<close> formats, as Python 2 prints it: the days, then the seconds
  and the microseconds when they are not zero.
\<close>

definition repr_timedelta :: "timedelta \<Rightarrow> string" where
  "repr_timedelta td =
     (if td_microseconds td \<noteq> 0
      then ''datetime.timedelta('' @ str_int (td_days td) @ '', '' @ str_int (td_seconds td)
             @ '', '' @ str_int (td_microseconds td) @ '')''
      else if td_seconds td \<noteq> 0
      then ''datetime.timedelta('' @ str_int (td_days td) @ '', '' @ str_int (td_seconds td)
             @ '')''
      else ''datetime.timedelta('' @ str_int (td_days td) @ '')'')"

subsection \<open>The object store and the collaborators\<close>

text \<open>
  A naive \<^verbatim>\<open>datetime\<close> is a point on the time line, counted in microseconds; the
  difference of two is a \<^verbatim>\<open>timedelta\<close>.
\<close>

type_synonym datetime = int

definition datetime_sub :: "datetime \<Rightarrow> datetime \<Rightarrow> timedelta" where
  "datetime_sub a b = Timedelta (a - b)"

text \<open>
  A boto key: the bucket it lives in, its name inside the bucket, and the
  \<^verbatim>\<open>last_modified\<close> string of the listing.
\<close>

record s3_key =
  bucket :: string
  name :: string
  last_modified :: string

definition key_id :: "s3_key \<Rightarrow> string \<times> string" where
  "key_id k = (bucket k, name k)"

text \<open>What the program does to the outside, in the order it does it.\<close>

datatype event =
    MakeS3Conn
  | LogInfo string
  | Ls string
  | GetBucket string
  | BucketList string string
  | KeyDelete string string

text \<open>
  The world: the keys in the store, and the number of times \<^verbatim>\<open>datetime.now()\<close> has
  been read.
\<close>

record world =
  store :: "s3_key list"
  ticks :: nat

text \<open>
  What a piece of the program leaves behind: the world after it, the events it issued,
  and the exception it raised, if any. A run that raises stops there, with the world as
  it is at that moment.
\<close>

record outcome =
  after :: world
  events :: "event list"
  raised :: "error option"

text \<open>
  The collaborators whose code is not part of the module are parameters: the clock
  (\<open>now E n\<close> is what the n-th reading of \<^verbatim>\<open>datetime.now()\<close> returns),
  \<^verbatim>\<open>datetime.strptime(_, boto.utils.ISO8601)\<close>, \<^verbatim>\<open>runner.ls\<close> on the current store, and
  \<^verbatim>\<open>parse_s3_uri\<close>. \<^verbatim>\<open>strptime\<close> and \<^verbatim>\<open>parse_s3_uri\<close> may raise.
\<close>

record env =
  now :: "nat \<Rightarrow> datetime"
  strptime :: "string \<Rightarrow> error + datetime"
  ls :: "s3_key list \<Rightarrow> string \<Rightarrow> string list"
  parse_s3_uri :: "string \<Rightarrow> error + string \<times> string"

text \<open>\<^verbatim>\<open>bucket.list(prefix)\<close>: the keys of the bucket whose name starts with the prefix.\<close>

definition bucket_list :: "string \<Rightarrow> string \<Rightarrow> s3_key list \<Rightarrow> s3_key list" where
  "bucket_list b p st = filter (\<lambda>k. bucket k = b \<and> prefix p (name k)) st"

text \<open>\<^verbatim>\<open>key.delete()\<close>: the key is gone from the store.\<close>

definition key_delete :: "s3_key \<Rightarrow> world \<Rightarrow> world" where
  "key_delete k w = w\<lparr>store := filter (\<lambda>k'. key_id k' \<noteq> key_id k) (store w)\<rparr>"

text \<open>
  \<^verbatim>\<open>for x in xs: body\<close>: the body runs on each element in turn, from the world the
  element before left; an exception ends the loop.
\<close>

fun for_each :: "('a \<Rightarrow> world \<Rightarrow> outcome) \<Rightarrow> 'a list \<Rightarrow> world \<Rightarrow> outcome" where
  "for_each body [] w = \<lparr>after = w, events = [], raised = None\<rparr>"
| "for_each body (x # xs) w =
     (let r = body x w
      in case raised r of
           Some e \<Rightarrow> r
         | None \<Rightarrow>
             (let r' = for_each body xs (after r)
              in r'\<lparr>events := events r @ events r'\<rparr>))"

subsection \<open>\<^verbatim>\<open>S3_cleanup\<close>\<close>

definition header_line :: "string \<Rightarrow> timedelta \<Rightarrow> string" where
  "header_line glob_path time_old =
     ''Deleting all files in '' @ glob_path @ '' that are older than ''
       @ repr_timedelta time_old @ '' days old''"

definition key_line :: "s3_key \<Rightarrow> timedelta \<Rightarrow> string" where
  "key_line key time_delta =
     ''Deleting '' @ name key @ ''; is '' @ str_timedelta time_delta @ '' old''"

text \<open>The body of the inner loop, for one key of a listing.\<close>

definition S3_cleanup_key :: "env \<Rightarrow> timedelta \<Rightarrow> bool \<Rightarrow> s3_key \<Rightarrow> world \<Rightarrow> outcome" where
  "S3_cleanup_key E time_old dry_run key w =
     (case strptime E (last_modified key) of
        Inl e \<Rightarrow> \<lparr>after = w, events = [], raised = Some e\<rparr>
      | Inr modified \<Rightarrow>
          (let time_delta = datetime_sub (now E (ticks w)) modified;
               w = w\<lparr>ticks := Suc (ticks w)\<rparr>
           in if td_gt time_delta time_old
              then (if \<not> dry_run
                    then \<lparr>after = key_delete key w,
                          events = [LogInfo (key_line key time_delta),
                                    KeyDelete (bucket key) (name key)],
                          raised = None\<rparr>
                    else \<lparr>after = w, events = [LogInfo (key_line key time_delta)],
                          raised = None\<rparr>)
              else \<lparr>after = w, events = [], raised = None\<rparr>))"

text \<open>The body of the outer loop, for one path that \<^verbatim>\<open>runner.ls\<close> gave.\<close>

definition S3_cleanup_path :: "env \<Rightarrow> timedelta \<Rightarrow> bool \<Rightarrow> string \<Rightarrow> world \<Rightarrow> outcome" where
  "S3_cleanup_path E time_old dry_run path w =
     (case parse_s3_uri E path of
        Inl e \<Rightarrow> \<lparr>after = w, events = [], raised = Some e\<rparr>
      | Inr (bucket_name, key_name) \<Rightarrow>
          (let r = for_each (S3_cleanup_key E time_old dry_run)
                     (bucket_list bucket_name key_name (store w)) w
           in r\<lparr>events := [GetBucket bucket_name, BucketList bucket_name key_name]
                             @ events r\<rparr>))"

definition S3_cleanup :: "env \<Rightarrow> string \<Rightarrow> timedelta \<Rightarrow> bool \<Rightarrow> world \<Rightarrow> outcome" where
  "S3_cleanup E glob_path time_old dry_run w =
     (let r = for_each (S3_cleanup_path E time_old dry_run) (ls E (store w) glob_path) w
      in r\<lparr>events := [MakeS3Conn, LogInfo (header_line glob_path time_old), Ls glob_path]
                        @ events r\<rparr>)"

subsection \<open>\<^verbatim>\<open>main\<close>\<close>

text \<open>
  The options that decide what \<^verbatim>\<open>main\<close> does to the store: \<^verbatim>\<open>--time\<close> and \<^verbatim>\<open>--test\<close>.
  Setting up the logging (\<^verbatim>\<open>--quiet\<close>, \<^verbatim>\<open>--verbose\<close>) touches no storage and is left out.
  \<^verbatim>\<open>option_parser.error\<close> exits.
\<close>

record options =
  time :: string
  test :: bool

definition main :: "env \<Rightarrow> options \<Rightarrow> string list \<Rightarrow> world \<Rightarrow> outcome" where
  "main E opts args w =
     (if args = [] then \<lparr>after = w, events = [], raised = Some SystemExit\<rparr>
      else (case process_time (time opts) of
              Inl e \<Rightarrow> \<lparr>after = w, events = [], raised = Some e\<rparr>
            | Inr time_old \<Rightarrow>
                for_each (\<lambda>path. S3_cleanup E path time_old (test opts)) args w))"

subsection \<open>Reading the events of a run\<close>

fun deletes :: "event list \<Rightarrow> (string \<times> string) list" where
  "deletes [] = []"
| "deletes (KeyDelete b n # evs) = (b, n) # deletes evs"
| "deletes (e # evs) = deletes evs"

fun logs :: "event list \<Rightarrow> string list" where
  "logs [] = []"
| "logs (LogInfo s # evs) = s # logs evs"
| "logs (e # evs) = logs evs"

text \<open>
  A key is older than the threshold at the n-th reading of the clock. A key whose
  \<^verbatim>\<open>last_modified\<close> does not parse is at no reading.
\<close>

definition older_at :: "env \<Rightarrow> timedelta \<Rightarrow> s3_key \<Rightarrow> nat \<Rightarrow> bool" where
  "older_at E time_old k n =
     (case strptime E (last_modified k) of
        Inl e \<Rightarrow> False
      | Inr modified \<Rightarrow> td_gt (datetime_sub (now E n) modified) time_old)"



text \<open>A path under which the store has no key.\<close>

definition no_keys :: "env \<Rightarrow> s3_key list \<Rightarrow> string \<Rightarrow> bool" where
  "no_keys E st path =
     (case parse_s3_uri E path of
        Inl e \<Rightarrow> False
      | Inr (bucket_name, key_name) \<Rightarrow> bucket_list bucket_name key_name st = [])"

subsection \<open>The object line as the specification words it\<close>

text \<open>
  The specification identifies an object by its URI, and words the line of a deleted
  object as \<^verbatim>\<open>Deleting <object-uri>; is <elapsed> old\<close>.
\<close>

definition s3_uri :: "s3_key \<Rightarrow> string" where
  "s3_uri k = ''s3://'' @ bucket k @ ''/'' @ name k"


subsection \<open>An example environment\<close>

text \<open>
  Collaborators for concrete runs: a listing whose \<^verbatim>\<open>last_modified\<close> is a day number,
  a \<^verbatim>\<open>runner.ls\<close> that gives the URI of every key whose URI starts with the glob up to
  its first star, and a \<^verbatim>\<open>parse_s3_uri\<close> that splits \<^verbatim>\<open>s3://bucket/key\<close>. The clock
  starts at \<open>t\<close> and advances by \<open>step\<close> microseconds at each reading.
\<close>

definition example_strptime :: "string \<Rightarrow> error + datetime" where
  "example_strptime s =
     (case py_int s of Inl e \<Rightarrow> Inl e | Inr n \<Rightarrow> Inr (n * 86400000000))"

definition example_ls :: "s3_key list \<Rightarrow> string \<Rightarrow> string list" where
  "example_ls st glob =
     map s3_uri (filter (\<lambda>k. prefix (takeWhile (\<lambda>c. c \<noteq> CHR ''*'') glob) (s3_uri k)) st)"

definition example_parse_s3_uri :: "string \<Rightarrow> error + string \<times> string" where
  "example_parse_s3_uri uri =
     (if prefix ''s3://'' uri \<and> CHR ''/'' \<in> set (drop 5 uri)
      then Inr (takeWhile (\<lambda>c. c \<noteq> CHR ''/'') (drop 5 uri),
                tl (dropWhile (\<lambda>c. c \<noteq> CHR ''/'') (drop 5 uri)))
      else Inl ValueError)"

definition example_env :: "datetime \<Rightarrow> int \<Rightarrow> env" where
  "example_env t step =
     \<lparr>now = (\<lambda>n. t + step * int n), strptime = example_strptime, ls = example_ls,
      parse_s3_uri = example_parse_s3_uri\<rparr>"

definition days :: "int \<Rightarrow> int" where
  "days n = n * 86400000000"

text \<open>Two keys under \<^verbatim>\<open>s3://bucket/tmp/\<close>, last modified on day 0 and on day 30.\<close>

definition key_a :: s3_key where
  "key_a = \<lparr>bucket = ''bucket'', name = ''tmp/a'', last_modified = ''0''\<rparr>"

definition key_b :: s3_key where
  "key_b = \<lparr>bucket = ''bucket'', name = ''tmp/b'', last_modified = ''30''\<rparr>"

definition example_world :: world where
  "example_world = \<lparr>store = [key_a, key_b], ticks = 0\<rparr>"

text \<open>The same, with a \<^verbatim>\<open>runner.ls\<close> that gives back the path it is asked for.\<close>

definition literal_env :: "datetime \<Rightarrow> int \<Rightarrow> env" where
  "literal_env t step = (example_env t step)\<lparr>ls := (\<lambda>st glob. [glob])\<rparr>"

subsection \<open>The keys a run classifies for deletion\<close>

text \<open>
  A list of keys, each with the age it was found to have, accounts for the events of a
  run: the lines logged are the lines of these keys, the delete calls are the calls on
  these keys (none in a dry run), each age is greater than the threshold and each key
  is one of \<open>ks\<close>.
\<close>

definition classified ::
  "timedelta \<Rightarrow> bool \<Rightarrow> s3_key list \<Rightarrow> event list \<Rightarrow> (s3_key \<times> timedelta) list \<Rightarrow> bool" where
  "classified old dry ks evs kds =
     (logs evs = map (\<lambda>(k, d). key_line k d) kds
      \<and> deletes evs = (if dry then [] else map (\<lambda>(k, d). key_id k) kds)
      \<and> list_all (\<lambda>(k, d). td_gt d old \<and> k \<in> set ks) kds)"

section \<open>Durations\<close>

subsection \<open>Comparing two durations\<close>

lemma lex_less:
  fixes m q r q' r' :: int
  assumes "0 \<le> r" "r < m" "0 \<le> r'" "r' < m"
  shows "m * q' + r' < m * q + r \<longleftrightarrow> (if q = q' then r' < r else q' < q)"
proof (cases "q = q'")
  case True
  then show ?thesis by simp
next
  case False
  have m: "0 \<le> m" using assms by linarith
  show ?thesis
  proof (cases "q' < q")
    case True
    then have "m * (q' + 1) \<le> m * q"
      using m by (intro mult_left_mono) simp_all
    then have "m * q' + r' < m * q + r"
      using assms by (simp add: distrib_left)
    then show ?thesis using True False by simp
  next
    case gt: False
    then have "q < q'" using False by simp
    then have "m * (q + 1) \<le> m * q'"
      using m by (intro mult_left_mono) simp_all
    then have "\<not> m * q' + r' < m * q + r"
      using assms by (simp add: distrib_left)
    then show ?thesis using gt False by simp
  qed
qed

lemma div_mod_less:
  fixes m a b :: int
  assumes "0 < m"
  shows "b < a \<longleftrightarrow> (if a div m = b div m then b mod m < a mod m else b div m < a div m)"
proof -
  have "m * (b div m) + b mod m < m * (a div m) + a mod m
      \<longleftrightarrow> (if a div m = b div m then b mod m < a mod m else b div m < a div m)"
    using assms by (intro lex_less) simp_all
  then show ?thesis by simp
qed

lemma td_gt_iff: "td_gt (Timedelta a) (Timedelta b) \<longleftrightarrow> b < a"
proof -
  have m: "(a mod 86400000000) mod 1000000 = a mod 1000000"
    "(b mod 86400000000) mod 1000000 = b mod 1000000"
    by (rule mod_mod_cancel, simp)+
  have f1: "b < a \<longleftrightarrow>
      (if a div 86400000000 = b div 86400000000
       then b mod 86400000000 < a mod 86400000000
       else b div 86400000000 < a div 86400000000)"
    by (rule div_mod_less) simp
  have f2: "b mod 86400000000 < a mod 86400000000 \<longleftrightarrow>
      (if (a mod 86400000000) div 1000000 = (b mod 86400000000) div 1000000
       then b mod 1000000 < a mod 1000000
       else (b mod 86400000000) div 1000000 < (a mod 86400000000) div 1000000)"
    using div_mod_less [of 1000000 "b mod 86400000000" "a mod 86400000000"]
    by (simp only: m)
  show ?thesis
    by (simp only: td_gt_def td_days.simps td_seconds.simps td_microseconds.simps f1 f2)
qed

lemma td_gt_total: "td_gt (Timedelta a) old \<longleftrightarrow> total_us old < a"
  by (cases old) (simp add: td_gt_iff)

subsection \<open>Numerals and \<^verbatim>\<open>int\<close>\<close>

lemma digit_of_digits: "map digit_of ''0123456789'' = map Some [0..<10]"
  by code_simp

lemma digit_of_nth: "n < 10 \<Longrightarrow> digit_of (''0123456789'' ! n) = Some n"
proof -
  assume n: "n < 10"
  then have "digit_of (''0123456789'' ! n) = map digit_of ''0123456789'' ! n"
    by (subst nth_map) simp_all
  also have "\<dots> = Some n"
    using n by (simp only: digit_of_digits) simp
  finally show ?thesis .
qed

lemma is_digit_nth: "n < 10 \<Longrightarrow> is_digit (''0123456789'' ! n)"
  unfolding is_digit_def by (rule nth_mem) simp

lemma digits_value_append:
  "digits_value acc (xs @ ys) =
     (case digits_value acc xs of None \<Rightarrow> None | Some v \<Rightarrow> digits_value v ys)"
  by (induction xs arbitrary: acc) (auto split: option.splits)

lemma digits_value_str_nat: "digits_value 0 (str_nat n) = Some n"
proof (induction n rule: str_nat.induct)
  case (1 n)
  show ?case
  proof (cases "n < 10")
    case True
    then show ?thesis
      by (subst str_nat.simps) (simp add: digit_of_nth)
  next
    case False
    then have ih: "digits_value 0 (str_nat (n div 10)) = Some (n div 10)"
      using "1" by simp
    have "str_nat n = str_nat (n div 10) @ [''0123456789'' ! (n mod 10)]"
      using False by (subst str_nat.simps) simp
    then show ?thesis
      using ih by (simp add: digits_value_append digit_of_nth)
  qed
qed

lemma str_nat_digits: "list_all is_digit (str_nat n)"
proof (induction n rule: str_nat.induct)
  case (1 n)
  show ?case
  proof (cases "n < 10")
    case True
    then show ?thesis by (subst str_nat.simps) (simp add: is_digit_nth)
  next
    case False
    then show ?thesis
      using "1" by (subst str_nat.simps) (simp add: is_digit_nth)
  qed
qed

lemma str_nat_nonempty: "str_nat n \<noteq> []"
  by (subst str_nat.simps) simp

lemma is_digit_cases:
  "is_digit c \<Longrightarrow> \<not> isspace c \<and> c \<noteq> CHR ''-'' \<and> c \<noteq> CHR ''+'' \<and> c \<noteq> CHR ''m''
     \<and> c \<noteq> CHR ''h'' \<and> c \<noteq> CHR ''d''"
  by (auto simp: is_digit_def isspace_def)

lemma strip_id: "s \<noteq> [] \<Longrightarrow> \<not> isspace (hd s) \<Longrightarrow> \<not> isspace (last s) \<Longrightarrow> strip s = s"
proof -
  assume a: "s \<noteq> []" "\<not> isspace (hd s)" "\<not> isspace (last s)"
  then have "dropWhile isspace s = s" by (cases s) auto
  moreover have "dropWhile isspace (rev s) = rev s"
    using a by (cases "rev s") (auto simp: last_rev hd_rev)
  ultimately show ?thesis by (simp add: strip_def)
qed

lemma digits_hd_last: "s \<noteq> [] \<Longrightarrow> list_all is_digit s \<Longrightarrow> is_digit (hd s) \<and> is_digit (last s)"
  by (cases s) (auto simp: list_all_iff)

lemma py_int_str_nat: "py_int (str_nat n) = Inr (int n)"
proof -
  have d: "is_digit (hd (str_nat n))" "is_digit (last (str_nat n))"
    using digits_hd_last [OF str_nat_nonempty str_nat_digits] by auto
  have s: "strip (str_nat n) = str_nat n"
    using d is_digit_cases by (intro strip_id str_nat_nonempty) auto
  obtain c cs where c: "str_nat n = c # cs"
    using str_nat_nonempty [of n] by (cases "str_nat n") auto
  then have "is_digit c" using d by simp
  then have "c \<noteq> CHR ''-''" "c \<noteq> CHR ''+''" using is_digit_cases by auto
  then have u: "unsigned_part (str_nat n) = str_nat n" "\<not> is_negative (str_nat n)"
    using c by auto
  show ?thesis
    using u digits_value_str_nat [of n] str_nat_nonempty [of n]
    by (simp add: py_int_def s Let_def)
qed

lemma py_int_minus_str_nat: "0 < n \<Longrightarrow> py_int (CHR ''-'' # str_nat n) = Inr (- int n)"
proof -
  assume "0 < n"
  have d: "is_digit (last (str_nat n))"
    using digits_hd_last [OF str_nat_nonempty str_nat_digits] by auto
  have "strip (CHR ''-'' # str_nat n) = CHR ''-'' # str_nat n"
    using d is_digit_cases str_nat_nonempty [of n]
    by (intro strip_id) (auto simp: isspace_def)
  then show ?thesis
    using digits_value_str_nat [of n] str_nat_nonempty [of n]
    by (simp add: py_int_def Let_def)
qed

lemma py_int_str_int: "py_int (str_int i) = Inr i"
proof (cases "i < 0")
  case True
  then show ?thesis
    using py_int_minus_str_nat [of "nat (- i)"] by (simp add: str_int_def)
next
  case False
  then show ?thesis
    using py_int_str_nat [of "nat i"] by (simp add: str_int_def)
qed

lemma str_int_last: "str_int i \<noteq> [] \<and> is_digit (last (str_int i))"
  using digits_hd_last [OF str_nat_nonempty str_nat_digits] str_nat_nonempty
  by (auto simp: str_int_def)

lemma process_time_snoc:
  "process_time (s @ [c]) =
     then_delta (py_int (if c = CHR ''m'' \<or> c = CHR ''h'' \<or> c = CHR ''d'' then s else s @ [c]))
       (if c = CHR ''m'' then timedelta_minutes
        else if c = CHR ''d'' then timedelta_days else timedelta_hours)"
  by (simp add: process_time_def)

text \<open>
  C3. Duration parsing looks at the final character only. For every integer \<open>n\<close>, its
  decimal numeral followed by \<^verbatim>\<open>m\<close>, \<^verbatim>\<open>h\<close> or \<^verbatim>\<open>d\<close> is \<^verbatim>\<open>timedelta(minutes=n)\<close>,
  \<^verbatim>\<open>timedelta(hours=n)\<close> or \<^verbatim>\<open>timedelta(days=n)\<close>, and the numeral alone is
  \<^verbatim>\<open>timedelta(hours=n)\<close>: \<^verbatim>\<open>45m\<close> is 45 minutes, \<^verbatim>\<open>2h\<close> is 2 hours, \<^verbatim>\<open>7d\<close> is 7 days and
  \<^verbatim>\<open>5\<close> is 5 hours. In general the last character selects the unit, and the string
  handed to \<^verbatim>\<open>int\<close> is the rest when that character is a unit and the whole string
  otherwise.
\<close>

theorem process_time_units:
  "process_time (str_int n @ ''m'') = timedelta_minutes n
   \<and> process_time (str_int n @ ''h'') = timedelta_hours n
   \<and> process_time (str_int n @ ''d'') = timedelta_days n
   \<and> process_time (str_int n) = timedelta_hours n
   \<and> process_time ''45m'' = Inr (Timedelta (45 * 60000000))
   \<and> process_time ''2h'' = Inr (Timedelta (2 * 3600000000))
   \<and> process_time ''7d'' = Inr (Timedelta (7 * 86400000000))
   \<and> process_time ''5'' = Inr (Timedelta (5 * 3600000000))
   \<and> (\<forall>s c. process_time (s @ [c]) =
         then_delta
           (py_int (if c = CHR ''m'' \<or> c = CHR ''h'' \<or> c = CHR ''d'' then s else s @ [c]))
           (if c = CHR ''m'' then timedelta_minutes
            else if c = CHR ''d'' then timedelta_days else timedelta_hours))"
proof -
  have l: "str_int n \<noteq> []" "last (str_int n) \<noteq> CHR ''m''" "last (str_int n) \<noteq> CHR ''h''"
    "last (str_int n) \<noteq> CHR ''d''"
    using str_int_last [of n] is_digit_cases by auto
  have a: "process_time (str_int n) = timedelta_hours n"
    using l by (simp add: process_time_def py_int_str_int then_delta_def)
  have b: "process_time (str_int n @ ''m'') = timedelta_minutes n"
    "process_time (str_int n @ ''h'') = timedelta_hours n"
    "process_time (str_int n @ ''d'') = timedelta_days n"
    by (simp_all add: process_time_snoc py_int_str_int then_delta_def)
  have c: "process_time ''45m'' = Inr (Timedelta (45 * 60000000))"
    "process_time ''2h'' = Inr (Timedelta (2 * 3600000000))"
    "process_time ''7d'' = Inr (Timedelta (7 * 86400000000))"
    "process_time ''5'' = Inr (Timedelta (5 * 3600000000))"
    by (simp_all add: process_time_def then_delta_def py_int_def digit_of_def strip_def isspace_def
        timedelta_minutes_def timedelta_hours_def timedelta_days_def new_delta_def)
  show ?thesis
    using a b c process_time_snoc by blast
qed





section \<open>Runs\<close>

subsection \<open>Events and loops\<close>

lemma deletes_append: "deletes (xs @ ys) = deletes xs @ deletes ys"
  by (induction xs rule: deletes.induct) simp_all

lemma logs_append: "logs (xs @ ys) = logs xs @ logs ys"
  by (induction xs rule: logs.induct) simp_all

lemma for_each_Cons_None:
  "raised (body x w) = None \<Longrightarrow>
   after (for_each body (x # xs) w) = after (for_each body xs (after (body x w)))
   \<and> events (for_each body (x # xs) w)
       = events (body x w) @ events (for_each body xs (after (body x w)))
   \<and> raised (for_each body (x # xs) w) = raised (for_each body xs (after (body x w)))"
  by (simp add: Let_def)

lemma for_each_Cons_Some:
  "raised (body x w) = Some e \<Longrightarrow> for_each body (x # xs) w = body x w"
  by (simp add: Let_def)

text \<open>One key.\<close>

lemma key_deletes:
  "deletes (events (S3_cleanup_key E old dry k w))
     = (if \<not> dry \<and> older_at E old k (ticks w) then [key_id k] else [])"
  by (simp add: S3_cleanup_key_def older_at_def key_id_def Let_def split: sum.splits)

lemma key_store:
  "store (after (S3_cleanup_key E old dry k w))
     = (if \<not> dry \<and> older_at E old k (ticks w)
        then filter (\<lambda>k'. key_id k' \<noteq> key_id k) (store w) else store w)"
  by (simp add: S3_cleanup_key_def older_at_def key_delete_def Let_def split: sum.splits)

text \<open>The keys of one listing.\<close>

lemma keys_store:
  "store (after (for_each (S3_cleanup_key E old dry) ks w))
     = filter (\<lambda>k. key_id k \<notin> set (deletes (events (for_each (S3_cleanup_key E old dry) ks w))))
         (store w)"
proof (induction ks arbitrary: w)
  case Nil
  then show ?case by simp
next
  case (Cons k ks)
  show ?case
  proof (cases "raised (S3_cleanup_key E old dry k w)")
    case None
    show ?thesis
      using Cons [of "after (S3_cleanup_key E old dry k w)"]
      by (simp add: for_each_Cons_None None deletes_append key_deletes key_store
          del: for_each.simps)
  next
    case (Some e)
    show ?thesis
      by (simp add: for_each_Cons_Some [where e = e] Some key_deletes key_store del: for_each.simps)
  qed
qed

lemma keys_deletes_dry: "deletes (events (for_each (S3_cleanup_key E old True) ks w)) = []"
proof (induction ks arbitrary: w)
  case Nil
  then show ?case by simp
next
  case (Cons k ks)
  show ?case
  proof (cases "raised (S3_cleanup_key E old True k w)")
    case None
    show ?thesis
      using Cons by (simp add: for_each_Cons_None None deletes_append key_deletes
          del: for_each.simps)
  next
    case (Some e)
    show ?thesis
      by (simp add: for_each_Cons_Some [where e = e] Some key_deletes del: for_each.simps)
  qed
qed









text \<open>One path.\<close>

lemma path_store:
  "store (after (S3_cleanup_path E old dry p w))
     = filter (\<lambda>k. key_id k \<notin> set (deletes (events (S3_cleanup_path E old dry p w)))) (store w)"
  by (cases "parse_s3_uri E p") (auto simp: S3_cleanup_path_def Let_def keys_store)

lemma path_deletes_dry: "deletes (events (S3_cleanup_path E old True p w)) = []"
  by (cases "parse_s3_uri E p") (auto simp: S3_cleanup_path_def Let_def keys_deletes_dry)





text \<open>The paths of one run.\<close>

lemma paths_store:
  "store (after (for_each (S3_cleanup_path E old dry) ps w))
     = filter (\<lambda>k. key_id k \<notin> set (deletes (events (for_each (S3_cleanup_path E old dry) ps w))))
         (store w)"
proof (induction ps arbitrary: w)
  case Nil
  then show ?case by simp
next
  case (Cons p ps)
  show ?case
  proof (cases "raised (S3_cleanup_path E old dry p w)")
    case None
    show ?thesis
      using Cons [of "after (S3_cleanup_path E old dry p w)"]
        path_store [of E old dry p w]
      by (simp add: for_each_Cons_None None deletes_append del: for_each.simps)
  next
    case (Some e)
    show ?thesis
      using path_store [of E old dry p w]
      by (simp add: for_each_Cons_Some [where e = e] Some del: for_each.simps)
  qed
qed

lemma paths_deletes_dry: "deletes (events (for_each (S3_cleanup_path E old True) ps w)) = []"
proof (induction ps arbitrary: w)
  case Nil
  then show ?case by simp
next
  case (Cons p ps)
  show ?case
  proof (cases "raised (S3_cleanup_path E old True p w)")
    case None
    show ?thesis
      using Cons by (simp add: for_each_Cons_None None deletes_append path_deletes_dry
          del: for_each.simps)
  next
    case (Some e)
    show ?thesis
      by (simp add: for_each_Cons_Some [where e = e] Some path_deletes_dry del: for_each.simps)
  qed
qed




lemma classified_mono:
  "classified old dry ks evs kds \<Longrightarrow> set ks \<subseteq> set ks' \<Longrightarrow> classified old dry ks' evs kds"
  by (auto simp: classified_def list_all_iff)


lemma path_no_keys:
  "no_keys E (store w) p \<Longrightarrow>
   after (S3_cleanup_path E old dry p w) = w \<and> raised (S3_cleanup_path E old dry p w) = None
   \<and> deletes (events (S3_cleanup_path E old dry p w)) = []
   \<and> logs (events (S3_cleanup_path E old dry p w)) = []"
  by (cases "parse_s3_uri E p") (auto simp: no_keys_def S3_cleanup_path_def Let_def)

lemma paths_no_keys:
  "list_all (no_keys E (store w)) ps \<Longrightarrow>
   after (for_each (S3_cleanup_path E old dry) ps w) = w
   \<and> raised (for_each (S3_cleanup_path E old dry) ps w) = None
   \<and> deletes (events (for_each (S3_cleanup_path E old dry) ps w)) = []
   \<and> logs (events (for_each (S3_cleanup_path E old dry) ps w)) = []"
proof (induction ps)
  case Nil
  then show ?case by simp
next
  case (Cons p ps)
  then have p: "no_keys E (store w) p" and ps: "list_all (no_keys E (store w)) ps"
    by simp_all
  note one = path_no_keys [OF p, of old dry]
  have none: "raised (S3_cleanup_path E old dry p w) = None"
    using one by simp
  show ?case
    using one Cons.IH [OF ps]
    by (simp add: for_each_Cons_None none deletes_append logs_append del: for_each.simps)
qed

text \<open>The whole of \<^verbatim>\<open>S3_cleanup\<close>.\<close>

lemma S3_cleanup_deletes:
  "deletes (events (S3_cleanup E glob old dry w))
     = deletes (events (for_each (S3_cleanup_path E old dry) (ls E (store w) glob) w))"
  by (simp add: S3_cleanup_def Let_def)

lemma S3_cleanup_logs:
  "logs (events (S3_cleanup E glob old dry w))
     = header_line glob old
       # logs (events (for_each (S3_cleanup_path E old dry) (ls E (store w) glob) w))"
  by (simp add: S3_cleanup_def Let_def)

lemma S3_cleanup_after:
  "after (S3_cleanup E glob old dry w)
     = after (for_each (S3_cleanup_path E old dry) (ls E (store w) glob) w)"
  by (simp add: S3_cleanup_def Let_def)

lemma S3_cleanup_raised:
  "raised (S3_cleanup E glob old dry w)
     = raised (for_each (S3_cleanup_path E old dry) (ls E (store w) glob) w)"
  by (simp add: S3_cleanup_def Let_def)

lemma S3_cleanup_dry_store: "store (after (S3_cleanup E glob old True w)) = store w"
  by (simp add: S3_cleanup_after paths_store paths_deletes_dry)

section \<open>What a run deletes and logs\<close>






text \<open>
  C2. For a key whose \<^verbatim>\<open>last_modified\<close> parses, the decision is exactly
  \<^verbatim>\<open>now - last_modified > time_old\<close>, strictly: when the age exceeds the threshold the key
  is logged and, unless the run is dry, deleted; when the age is equal to the threshold
  or below it, nothing is logged, nothing is deleted and the store stays as it was.
\<close>

theorem deletion_decision:
  "strptime E (last_modified key) = Inr modified \<Longrightarrow>
   events (S3_cleanup_key E time_old dry_run key w)
     = (if total_us time_old < now E (ticks w) - modified
        then LogInfo (key_line key (Timedelta (now E (ticks w) - modified)))
               # (if dry_run then [] else [KeyDelete (bucket key) (name key)])
        else [])
   \<and> store (after (S3_cleanup_key E time_old dry_run key w))
       = (if total_us time_old < now E (ticks w) - modified \<and> \<not> dry_run
          then filter (\<lambda>k. key_id k \<noteq> key_id key) (store w) else store w)"
  by (simp add: S3_cleanup_key_def Let_def datetime_sub_def td_gt_total key_delete_def)

lemma key_a_modified: "strptime (example_env t step) (last_modified key_a) = Inr 0"
  by (simp add: example_env_def key_a_def example_strptime_def py_int_def digit_of_def strip_def
      isspace_def)

lemma thirty_days: "process_time DEFAULT_TIME_OLD = Inr (Timedelta (days 30))"
  by (simp add: DEFAULT_TIME_OLD_def process_time_def then_delta_def py_int_def digit_of_def strip_def isspace_def
      timedelta_days_def new_delta_def days_def)

text \<open>
  With the default threshold, \<^verbatim>\<open>30d\<close>: a key of age 31 days is deleted, a key of age 29 days is
  not, and a key of age 30 days exactly is not.
\<close>

theorem deletion_decision_witness:
  "process_time DEFAULT_TIME_OLD = Inr (Timedelta (days 30))
   \<and> strptime (example_env (days 31) 0) (last_modified key_a) = Inr 0
   \<and> events (S3_cleanup_key (example_env (days 31) 0) (Timedelta (days 30)) False key_a
        example_world)
       = [LogInfo ''Deleting tmp/a; is 31 days, 0:00:00 old'', KeyDelete ''bucket'' ''tmp/a'']
   \<and> strptime (example_env (days 29) 0) (last_modified key_a) = Inr 0
   \<and> events (S3_cleanup_key (example_env (days 29) 0) (Timedelta (days 30)) False key_a
        example_world) = []
   \<and> strptime (example_env (days 30) 0) (last_modified key_a) = Inr 0
   \<and> events (S3_cleanup_key (example_env (days 30) 0) (Timedelta (days 30)) False key_a
        example_world) = []
   \<and> store (after (S3_cleanup_key (example_env (days 30) 0) (Timedelta (days 30)) False key_a
        example_world)) = store example_world"
proof -
  have line: "key_line key_a (Timedelta (days 31)) = ''Deleting tmp/a; is 31 days, 0:00:00 old''"
    by code_simp
  have n: "now (example_env t 0) (ticks example_world) = t" for t
    by (simp add: example_env_def)
  show ?thesis
    using deletion_decision [OF key_a_modified, of "days 31" 0 "Timedelta (days 30)" False
        example_world]
      deletion_decision [OF key_a_modified, of "days 29" 0 "Timedelta (days 30)" False
        example_world]
      deletion_decision [OF key_a_modified, of "days 30" 0 "Timedelta (days 30)" False
        example_world]
      thirty_days key_a_modified line
    by (simp add: n) (simp add: days_def key_a_def)
qed

text \<open>
  C5. When the \<^verbatim>\<open>--time\<close> string does not parse, \<^verbatim>\<open>main\<close> raises with no event issued
  and the world unchanged: no connection is made, no path is listed, no key is deleted.
\<close>

theorem parse_failure_aborts:
  "process_time (time opts) = Inl e \<Longrightarrow>
   main E opts args w
     = \<lparr>after = w, events = [], raised = Some (if args = [] then SystemExit else e)\<rparr>"
  by (simp add: main_def)

text \<open>\<^verbatim>\<open>main\<close> with \<^verbatim>\<open>--time abc\<close> on the example store.\<close>

theorem parse_failure_aborts_witness:
  "process_time (time \<lparr>time = ''abc'', test = False\<rparr>) = Inl ValueError
   \<and> main (example_env (days 40) 0) \<lparr>time = ''abc'', test = False\<rparr> [''s3://bucket/tmp/*'']
        example_world
       = \<lparr>after = example_world, events = [], raised = Some ValueError\<rparr>"
proof -
  have p: "process_time (time \<lparr>time = ''abc'', test = False\<rparr>) = Inl ValueError"
    by (simp add: process_time_def then_delta_def py_int_def digit_of_def strip_def isspace_def)
  show ?thesis
    using p parse_failure_aborts [OF p, of "example_env (days 40) 0" "[''s3://bucket/tmp/*'']"
        example_world]
    by simp
qed

text \<open>
  C9. On the empty string duration parsing raises the IndexError of \<^verbatim>\<open>time[-1]\<close>, not
  the ValueError of a malformed duration: the string is indexed before anything else.
  Nothing checks for it before: \<^verbatim>\<open>main\<close> with an empty \<^verbatim>\<open>--time\<close> raises the same.
\<close>

theorem process_time_empty:
  "process_time [] = Inl IndexError
   \<and> process_time [] \<noteq> Inl ValueError
   \<and> main E \<lparr>time = [], test = dry_run\<rparr> (path # args) w
       = \<lparr>after = w, events = [], raised = Some IndexError\<rparr>"
  by (simp add: process_time_def main_def)



text \<open>
  C7. When every path that \<^verbatim>\<open>runner.ls\<close> gives for a glob has no key under it (also when
  it gives no path at all), \<^verbatim>\<open>S3_cleanup\<close> raises nothing, issues no delete call, logs the
  header only and leaves the world as it was; the loop of \<^verbatim>\<open>main\<close> goes on with the
  next argument.
\<close>

theorem no_objects_no_failure:
  "list_all (no_keys E (store w)) (ls E (store w) glob_path) \<Longrightarrow>
   raised (S3_cleanup E glob_path time_old dry_run w) = None
   \<and> after (S3_cleanup E glob_path time_old dry_run w) = w
   \<and> deletes (events (S3_cleanup E glob_path time_old dry_run w)) = []
   \<and> logs (events (S3_cleanup E glob_path time_old dry_run w)) = [header_line glob_path time_old]
   \<and> for_each (\<lambda>path. S3_cleanup E path time_old dry_run) (glob_path # args) w
       = (for_each (\<lambda>path. S3_cleanup E path time_old dry_run) args w)
           \<lparr>events := events (S3_cleanup E glob_path time_old dry_run w)
              @ events (for_each (\<lambda>path. S3_cleanup E path time_old dry_run) args w)\<rparr>"
proof -
  assume "list_all (no_keys E (store w)) (ls E (store w) glob_path)"
  note p = paths_no_keys [OF this, of time_old dry_run]
  have r: "raised (S3_cleanup E glob_path time_old dry_run w) = None"
    and a: "after (S3_cleanup E glob_path time_old dry_run w) = w"
    using p by (simp_all add: S3_cleanup_raised S3_cleanup_after)
  show ?thesis
    using p r a by (simp add: S3_cleanup_deletes S3_cleanup_logs Let_def)
qed

text \<open>A path of the example store with no key under it.\<close>

theorem no_objects_no_failure_witness:
  "list_all (no_keys (literal_env (days 40) 0) (store example_world))
     (ls (literal_env (days 40) 0) (store example_world) ''s3://bucket/none/'')
   \<and> raised (S3_cleanup (literal_env (days 40) 0) ''s3://bucket/none/'' (Timedelta (days 30))
        False example_world) = None
   \<and> after (S3_cleanup (literal_env (days 40) 0) ''s3://bucket/none/'' (Timedelta (days 30))
        False example_world) = example_world
   \<and> deletes (events (S3_cleanup (literal_env (days 40) 0) ''s3://bucket/none/''
        (Timedelta (days 30)) False example_world)) = []
   \<and> logs (events (S3_cleanup (literal_env (days 40) 0) ''s3://bucket/none/''
        (Timedelta (days 30)) False example_world))
       = [header_line ''s3://bucket/none/'' (Timedelta (days 30))]"
proof -
  have h: "list_all (no_keys (literal_env (days 40) 0) (store example_world))
     (ls (literal_env (days 40) 0) (store example_world) ''s3://bucket/none/'')"
    by code_simp
  show ?thesis
    using h no_objects_no_failure [OF h, of "Timedelta (days 30)" False "[]"]
    by simp
qed

text \<open>
  C8, as the code has it. A dry run leaves the stored keys as they were, and a second dry
  run on them that reads the same values from the clock as the first has the same
  outcome: the same events, so the same candidates for deletion.
\<close>

theorem dry_run_repeatable:
  "store (after (S3_cleanup E glob_path time_old True w)) = store w
   \<and> S3_cleanup E glob_path time_old True
        ((after (S3_cleanup E glob_path time_old True w))\<lparr>ticks := ticks w\<rparr>)
       = S3_cleanup E glob_path time_old True w"
proof -
  have s: "store (after (S3_cleanup E glob_path time_old True w)) = store w"
    by (rule S3_cleanup_dry_store)
  then have w: "(after (S3_cleanup E glob_path time_old True w))\<lparr>ticks := ticks w\<rparr> = w"
    by simp
  show ?thesis by (simp only: w s)
qed

text \<open>
  Two dry runs one after the other, the clock advancing by a microsecond at each
  reading: \<^verbatim>\<open>tmp/a\<close> is exactly 30 days old at the first run and no candidate, and a
  candidate at the second. The store is the same for both.
\<close>

theorem dry_run_twice_counterexample:
  "store (after (S3_cleanup (example_env (days 30) 1) ''s3://bucket/tmp/*'' (Timedelta (days 30))
      True example_world)) = store example_world
   \<and> logs (events (S3_cleanup (example_env (days 30) 1) ''s3://bucket/tmp/*''
        (Timedelta (days 30)) True example_world))
       = [header_line ''s3://bucket/tmp/*'' (Timedelta (days 30))]
   \<and> logs (events (S3_cleanup (example_env (days 30) 1) ''s3://bucket/tmp/*''
        (Timedelta (days 30)) True
        (after (S3_cleanup (example_env (days 30) 1) ''s3://bucket/tmp/*'' (Timedelta (days 30))
           True example_world))))
       = [header_line ''s3://bucket/tmp/*'' (Timedelta (days 30)),
          ''Deleting tmp/a; is 30 days, 0:00:00.000002 old'']
   \<and> logs (events (S3_cleanup (example_env (days 30) 1) ''s3://bucket/tmp/*''
        (Timedelta (days 30)) True
        (after (S3_cleanup (example_env (days 30) 1) ''s3://bucket/tmp/*'' (Timedelta (days 30))
           True example_world))))
       \<noteq> logs (events (S3_cleanup (example_env (days 30) 1) ''s3://bucket/tmp/*''
            (Timedelta (days 30)) True example_world))"
  by code_simp

lemma nonpositive_in_range:
  fixes n :: int
  assumes "- 999999999 \<le> n" "n \<le> 0"
  shows "new_delta (n * 86400000000) = Inr (Timedelta (n * 86400000000))"
    and "new_delta (n * 3600000000) = Inr (Timedelta (n * 3600000000))"
    and "new_delta (n * 60000000) = Inr (Timedelta (n * 60000000))"
proof -
  have "n * 3600000000 div 86400000000 = n div 24"
    using div_mult_mult2 [of 3600000000 n 24] by simp
  moreover have "n * 60000000 div 86400000000 = n div 1440"
    using div_mult_mult2 [of 60000000 n 1440] by simp
  moreover have "\<bar>n div 24\<bar> \<le> 999999999" "\<bar>n div 1440\<bar> \<le> 999999999"
    using assms by linarith+
  ultimately show "new_delta (n * 86400000000) = Inr (Timedelta (n * 86400000000))"
    and "new_delta (n * 3600000000) = Inr (Timedelta (n * 3600000000))"
    and "new_delta (n * 60000000) = Inr (Timedelta (n * 60000000))"
    using assms by (simp_all add: new_delta_def)
qed

text \<open>
  C10, as the code has it. Duration parsing accepts a negative or zero magnitude \<open>n\<close>
  (within the range of \<^verbatim>\<open>timedelta\<close>) and returns the negative or zero duration. Under
  such a threshold a key is classified for deletion when its age is not negative and
  the threshold is negative, or when its age is positive.
\<close>

theorem nonpositive_threshold:
  assumes "- 999999999 \<le> n" and "n \<le> 0"
    and "strptime E (last_modified key) = Inr modified"
    and "if n < 0 then modified \<le> now E (ticks w) else modified < now E (ticks w)"
  shows "process_time (str_int n @ ''m'') = Inr (Timedelta (n * 60000000))
   \<and> process_time (str_int n @ ''h'') = Inr (Timedelta (n * 3600000000))
   \<and> process_time (str_int n @ ''d'') = Inr (Timedelta (n * 86400000000))
   \<and> events (S3_cleanup_key E (Timedelta (n * 60000000)) False key w)
       = [LogInfo (key_line key (Timedelta (now E (ticks w) - modified))),
          KeyDelete (bucket key) (name key)]
   \<and> events (S3_cleanup_key E (Timedelta (n * 3600000000)) False key w)
       = [LogInfo (key_line key (Timedelta (now E (ticks w) - modified))),
          KeyDelete (bucket key) (name key)]
   \<and> events (S3_cleanup_key E (Timedelta (n * 86400000000)) False key w)
       = [LogInfo (key_line key (Timedelta (now E (ticks w) - modified))),
          KeyDelete (bucket key) (name key)]"
proof -
  have p: "process_time (str_int n @ ''m'') = Inr (Timedelta (n * 60000000))"
    "process_time (str_int n @ ''h'') = Inr (Timedelta (n * 3600000000))"
    "process_time (str_int n @ ''d'') = Inr (Timedelta (n * 86400000000))"
    using nonpositive_in_range [OF assms(1,2)]
    by (simp_all add: process_time_snoc py_int_str_int then_delta_def timedelta_minutes_def
        timedelta_hours_def timedelta_days_def)
  have age: "n * u < now E (ticks w) - modified" if "0 < u" for u :: int
  proof (cases "n < 0")
    case True
    then have "n * u < 0" using that by (simp add: mult_neg_pos)
    then show ?thesis using assms(4) True by simp
  next
    case False
    then have "n = 0" using assms(2) by simp
    then show ?thesis using assms(4) by simp
  qed
  have e: "events (S3_cleanup_key E (Timedelta (n * u)) False key w)
       = [LogInfo (key_line key (Timedelta (now E (ticks w) - modified))),
          KeyDelete (bucket key) (name key)]" if "0 < u" for u :: int
    using age [OF that] assms(3)
    by (simp add: S3_cleanup_key_def Let_def datetime_sub_def td_gt_iff)
  show ?thesis
    using p e [of 60000000] e [of 3600000000] e [of 86400000000] by simp
qed

text \<open>
  \<^verbatim>\<open>-1h\<close> with a key of age zero, and \<^verbatim>\<open>0d\<close> with a key of age one microsecond.
\<close>

theorem nonpositive_threshold_witness:
  "- 999999999 \<le> (- 1 :: int) \<and> (- 1 :: int) \<le> 0
   \<and> strptime (example_env 0 0) (last_modified key_a) = Inr 0
   \<and> (0 :: int) \<le> now (example_env 0 0) (ticks example_world)
   \<and> process_time ''-1h'' = Inr (Timedelta (- 3600000000))
   \<and> events (S3_cleanup_key (example_env 0 0) (Timedelta (- 3600000000)) False key_a example_world)
       = [LogInfo ''Deleting tmp/a; is 0:00:00 old'', KeyDelete ''bucket'' ''tmp/a'']
   \<and> - 999999999 \<le> (0 :: int) \<and> (0 :: int) \<le> 0
   \<and> strptime (example_env 1 0) (last_modified key_a) = Inr 0
   \<and> (0 :: int) < now (example_env 1 0) (ticks example_world)
   \<and> process_time ''0d'' = Inr (Timedelta 0)
   \<and> events (S3_cleanup_key (example_env 1 0) (Timedelta 0) False key_a example_world)
       = [LogInfo ''Deleting tmp/a; is 0:00:00.000001 old'', KeyDelete ''bucket'' ''tmp/a'']"
proof -
  have c0: "(0 :: int) \<le> now (example_env 0 0) (ticks example_world)"
    and c1: "(0 :: int) < now (example_env 1 0) (ticks example_world)"
    by (simp_all add: example_env_def)
  have s: "str_int (- 1) @ ''h'' = ''-1h''" "str_int 0 @ ''d'' = ''0d''"
    by code_simp+
  have l: "key_line key_a (Timedelta (now (example_env 0 0) (ticks example_world)))
      = ''Deleting tmp/a; is 0:00:00 old''"
    "key_line key_a (Timedelta (now (example_env 1 0) (ticks example_world)))
      = ''Deleting tmp/a; is 0:00:00.000001 old''"
    by code_simp+
  have b: "bucket key_a = ''bucket''" "name key_a = ''tmp/a''"
    by (simp_all add: key_a_def)
  show ?thesis
    using nonpositive_threshold [of "- 1" "example_env 0 0" key_a 0 example_world]
      nonpositive_threshold [of 0 "example_env 1 0" key_a 0 example_world]
      key_a_modified [of 0 0] key_a_modified [of 1 0] c0 c1
    by (simp add: s l b)
qed

text \<open>
  Under the threshold \<^verbatim>\<open>0d\<close> a key of age zero, which is not negative, does not exceed
  the threshold: nothing is logged and nothing is deleted.
\<close>

theorem zero_threshold_counterexample:
  "process_time ''0d'' = Inr (Timedelta 0)
   \<and> strptime (example_env 0 0) (last_modified key_a) = Inr 0
   \<and> 0 \<le> total_us (datetime_sub (now (example_env 0 0) (ticks example_world)) 0)
   \<and> events (S3_cleanup_key (example_env 0 0) (Timedelta 0) False key_a example_world) = []
   \<and> store (after (S3_cleanup_key (example_env 0 0) (Timedelta 0) False key_a example_world))
       = store example_world"
  by code_simp

end
